theory Spec2Isabelle
  imports Main
begin

section \<open>Python values, errors and dictionaries\<close>

text \<open>
  The exception classes that \<^verbatim>\<open>responder/api.py\<close> raises or catches. Every other class
  is \<open>OtherError\<close>, tagged with its name; it is caught by none of the handlers of the
  source.
\<close>

datatype exn =
  TypeError | AssertionError | AttributeError | KeyError | IndexError | ValueError
  | OtherError string

text \<open>
  A Python \<^verbatim>\<open>dict\<close> keeps its keys in insertion order, and the source iterates over
  \<^verbatim>\<open>self.routes.items()\<close>, so a dictionary is an association list in insertion order.
  \<open>dict_setitem\<close> is \<^verbatim>\<open>d[k] = v\<close>: an existing key keeps its position and gets the new
  value, a new key goes to the end.
\<close>

type_synonym ('k, 'v) dict = "('k \<times> 'v) list"

fun dict_setitem :: "('k, 'v) dict \<Rightarrow> 'k \<Rightarrow> 'v \<Rightarrow> ('k, 'v) dict" where
  "dict_setitem [] k v = [(k, v)]"
| "dict_setitem ((k', v') # d) k v =
     (if k' = k then (k, v) # d else (k', v') # dict_setitem d k v)"

definition dict_contains :: "'k \<Rightarrow> ('k, 'v) dict \<Rightarrow> bool" where
  "dict_contains k d = (map_of d k \<noteq> None)"

definition dict_getitem :: "('k, 'v) dict \<Rightarrow> 'k \<Rightarrow> exn + 'v" where
  "dict_getitem d k = (case map_of d k of None \<Rightarrow> Inl KeyError | Some v \<Rightarrow> Inr v)"

text \<open>A JSON document, as \<^verbatim>\<open>json.loads\<close> and \<^verbatim>\<open>req.json()\<close> produce it.\<close>

datatype json =
  JNull | JBool bool | JNum int | JStr string | JArr "json list" | JObj "(string, json) dict"

text \<open>
  \<^verbatim>\<open>v["query"]\<close> on a parsed JSON value: a \<^verbatim>\<open>dict\<close> raises \<^verbatim>\<open>KeyError\<close> for a
  missing key; a list, a string, a number, a boolean and \<^verbatim>\<open>None\<close> raise
  \<^verbatim>\<open>TypeError\<close> for a string subscript.
\<close>

fun json_getitem :: "json \<Rightarrow> string \<Rightarrow> exn + json" where
  "json_getitem (JObj d) k = dict_getitem d k"
| "json_getitem _ k = Inl TypeError"

text \<open>\<^verbatim>\<open>needle in haystack\<close> on two strings: the substring test.\<close>

fun startswith :: "string \<Rightarrow> string \<Rightarrow> bool" where
  "startswith s [] = True"
| "startswith [] (p # ps) = False"
| "startswith (c # cs) (p # ps) = (c = p \<and> startswith cs ps)"

fun str_contains :: "string \<Rightarrow> string \<Rightarrow> bool" where
  "str_contains needle [] = (needle = [])"
| "str_contains needle (c # cs) = (startswith (c # cs) needle \<or> str_contains needle cs)"

text \<open>
  \<^verbatim>\<open>str.lower()\<close> on the ASCII letters, which is all an HTTP method token holds:
  \<open>A\<close> .. \<open>Z\<close> (65 .. 90) move to \<open>a\<close> .. \<open>z\<close>, which is 32 more (the sixth bit, clear in
  65 .. 90, is set); every other character stays.
\<close>

fun lower_char :: "char \<Rightarrow> char" where
  "lower_char (Char b0 b1 b2 b3 b4 b5 b6 b7) =
     (let n = (of_char (Char b0 b1 b2 b3 b4 b5 b6 b7) :: nat)
      in if 65 \<le> n \<and> n \<le> 90 then Char b0 b1 b2 b3 b4 True b6 b7
         else Char b0 b1 b2 b3 b4 b5 b6 b7)"

definition lower :: "string \<Rightarrow> string" where
  "lower s = map lower_char s"

section \<open>Requests and responses\<close>

text \<open>
  Modelled from the spec: the module \<^verbatim>\<open>responder/models.py\<close> (classes \<^verbatim>\<open>Request\<close> and
  \<^verbatim>\<open>Response\<close>) is not among the sources. The spec's RequestModel exposes method, path,
  headers, parsed query parameters, the body as JSON, form data or text, and the mutable
  ``already dispatched'' flag; the record has the attributes that \<^verbatim>\<open>api.py\<close> reads or
  writes. \<open>json_body\<close> is what \<^verbatim>\<open>req.json()\<close> gives (it raises on a body that does
  not parse); \<open>data\<close> is the parsed body, a plain \<^verbatim>\<open>str\<close> or a structured mapping;
  \<open>req_method\<close> and \<open>req_text\<close> are \<^verbatim>\<open>req.method\<close> and \<^verbatim>\<open>req.text\<close>.
\<close>

datatype body = PlainStr string | Structured "(string, json) dict"

type_synonym environ = "(string, string) dict"

record request =
  path :: string
  req_method :: string
  mimetype :: string
  json_body :: "exn + json"
  data :: body
  params :: "(string, string list) dict"
  req_text :: string
  dispatched :: bool
  environ :: environ
  start_response :: nat

text \<open>
  Modelled from the spec: \<^verbatim>\<open>models.Response\<close> and the constant \<^verbatim>\<open>HTTP_404\<close> of
  \<^verbatim>\<open>responder/status.py\<close> are not among the sources. The spec's ResponseModel is a
  mutable builder of status code and body (text or media) that defaults to 404.
\<close>

record response =
  status_code :: nat
  resp_text :: "string option"
  media :: "json option"

definition HTTP_404 :: nat where
  "HTTP_404 = 404"

definition Response :: "request \<Rightarrow> response" where
  "Response rq = \<lparr>status_code = HTTP_404, resp_text = None, media = None\<rparr>"

section \<open>Python objects as the dispatcher sees them\<close>

text \<open>
  A handler mutates the request and the response it is given, and may touch anything else
  it holds a reference to: \<open>world\<close> stands for that (a call log in the examples below).
  Calling an object either raises, leaving the state as it was at the \<^verbatim>\<open>raise\<close>, or
  returns a value; both come with the state after the call.
\<close>

record 'w state =
  req :: request
  resp :: response
  world :: 'w

type_synonym ('a, 'w) call = "'w state \<Rightarrow> (exn + 'a) \<times> 'w state"

text \<open>What \<^verbatim>\<open>schema.execute(query)\<close> of a GraphQL engine returns: data and errors.\<close>

datatype execution_result = ExecutionResult "json option" "string list"

text \<open>
  A handler is an arbitrary Python object. The dispatcher uses it in four ways only:
  it calls it as \<^verbatim>\<open>h(req, resp)\<close>, as \<^verbatim>\<open>h()\<close>, as
  \<^verbatim>\<open>h(environ=..., start_response=...)\<close>, and (an \<^verbatim>\<open>execute\<close> attribute) as
  \<^verbatim>\<open>h(query)\<close>; and it reads attributes by name. For each way of calling, the object has
  either no body that accepts these arguments (the call itself raises \<^verbatim>\<open>TypeError\<close> and
  nothing runs) or a body that runs. \<open>oid\<close> is the object's identity: \<^verbatim>\<open>==\<close> on
  functions, classes and instances that define no \<^verbatim>\<open>__eq__\<close> compares identities.
\<close>

datatype 'w pyobj = PyObj
  (oid: nat)
  (call_req_resp: "(unit, 'w) call option")
  (call_noargs: "('w pyobj, 'w) call option")
  (call_wsgi: "(environ \<Rightarrow> nat \<Rightarrow> (string list, 'w) call) option")
  (call_query: "(json \<Rightarrow> (execution_result, 'w) call) option")
  (attrs: "(string, 'w pyobj) dict")

definition py_eq :: "'w pyobj \<Rightarrow> 'w pyobj \<Rightarrow> bool" where
  "py_eq a b = (oid a = oid b)"

text \<open>
  A call with arguments the callee does not accept raises \<^verbatim>\<open>TypeError\<close> before any
  code of the callee runs.
\<close>

definition invoke :: "('a, 'w) call option \<Rightarrow> ('a, 'w) call" where
  "invoke f s = (case f of None \<Rightarrow> (Inl TypeError, s) | Some body \<Rightarrow> body s)"

definition hasattr :: "'w pyobj \<Rightarrow> string \<Rightarrow> bool" where
  "hasattr obj name = dict_contains name (attrs obj)"

section \<open>The application object\<close>

datatype 'w app = Internal_wsgi_app | Mounted "'w pyobj"

text \<open>
  The client session of the \<^verbatim>\<open>requests\<close> library, as far as \<^verbatim>\<open>api.py\<close> builds it: the
  adapters mounted on it, by URL prefix (the library's own default adapters are left
  out). The adapter wraps the application itself.
\<close>

datatype adapter = RequestsWSGIAdapter

record requests_session =
  adapters :: "(string, adapter) dict"

definition RequestsSession :: requests_session where
  "RequestsSession = \<lparr>adapters = []\<rparr>"

definition session_mount :: "requests_session \<Rightarrow> string \<Rightarrow> adapter \<Rightarrow> requests_session" where
  "session_mount c prefix a = c\<lparr>adapters := dict_setitem (adapters c) prefix a\<rparr>"

record 'w api =
  routes :: "(string, 'w pyobj) dict"
  apps :: "(string, 'w app) dict"
  session_cache :: "requests_session option"

text \<open>
  \<^verbatim>\<open>API.__init__\<close>: no route, the application's own gateway callable mounted at
  \<^verbatim>\<open>"/"\<close>, no cached session. (The directories it creates are not modelled.)
\<close>

definition API_init :: "'w api" where
  "API_init = \<lparr>routes = [], apps = [(''/'', Internal_wsgi_app)], session_cache = None\<rparr>"

fun path_matches_items :: "(string, 'v) dict \<Rightarrow> string \<Rightarrow> string option" where
  "path_matches_items [] url = None"
| "path_matches_items ((route, view) # items) url =
     (if url = route then Some route else path_matches_items items url)"

definition path_matches_route :: "'w api \<Rightarrow> string \<Rightarrow> string option" where
  "path_matches_route self url = path_matches_items (routes self) url"

definition add_route :: "'w api \<Rightarrow> string \<Rightarrow> 'w pyobj \<Rightarrow> bool \<Rightarrow> exn + 'w api" where
  "add_route self route view check_existing =
     (if check_existing \<and> dict_contains route (routes self) then Inl AssertionError
      else Inr (self\<lparr>routes := dict_setitem (routes self) route view\<rparr>))"

definition default_response :: "'w state \<Rightarrow> 'w state" where
  "default_response s =
     s\<lparr>resp := (resp s)\<lparr>status_code := HTTP_404, resp_text := Some ''Not found.''\<rparr>\<rparr>"

definition mount :: "'w api \<Rightarrow> string \<Rightarrow> 'w pyobj \<Rightarrow> 'w api" where
  "mount self route wsgi_app = self\<lparr>apps := dict_setitem (apps self) route (Mounted wsgi_app)\<rparr>"

definition session :: "'w api \<Rightarrow> string \<Rightarrow> requests_session \<times> 'w api" where
  "session self base_url =
     (case session_cache self of
        None \<Rightarrow>
          (let c = session_mount RequestsSession base_url RequestsWSGIAdapter
           in (c, self\<lparr>session_cache := Some c\<rparr>))
      | Some c \<Rightarrow> (c, self))"

fun url_for_items :: "(string, 'w pyobj) dict \<Rightarrow> 'w pyobj \<Rightarrow> exn + string" where
  "url_for_items [] view = Inl ValueError"
| "url_for_items ((route, view') # items) view =
     (if py_eq view view' then Inr route else url_for_items items view)"

definition url_for :: "'w api \<Rightarrow> 'w pyobj \<Rightarrow> exn + string" where
  "url_for self view = url_for_items (routes self) view"

section \<open>GraphQL query resolution\<close>

text \<open>\<^verbatim>\<open>req.params[name][0]\<close>: the first value of a query-string parameter.\<close>

definition first_param :: "request \<Rightarrow> string \<Rightarrow> exn + json" where
  "first_param rq name =
     (case dict_getitem (params rq) name of
        Inl e \<Rightarrow> Inl e
      | Inr [] \<Rightarrow> Inl IndexError
      | Inr (v # vs) \<Rightarrow> Inr (JStr v))"

text \<open>Lines 156 to 164: the query in the URL parameters, else the request text.\<close>

definition query_from_params :: "request \<Rightarrow> exn + json" where
  "query_from_params rq =
     (if dict_contains ''query'' (params rq) then first_param rq ''query''
      else if dict_contains ''q'' (params rq) then first_param rq ''q''
      else Inr (JStr (req_text rq)))"

text \<open>\<^verbatim>\<open>API._resolve_graphql_query\<close>. A string result is a \<open>JStr\<close>.\<close>

definition resolve_graphql_query :: "request \<Rightarrow> exn + json" where
  "resolve_graphql_query rq =
     (if str_contains ''json'' (mimetype rq) then
        (case json_body rq of Inl e \<Rightarrow> Inl e | Inr j \<Rightarrow> json_getitem j ''query'')
      else
        (case data rq of
           PlainStr t \<Rightarrow> query_from_params rq
         | Structured d \<Rightarrow>
             if dict_contains ''query'' d then dict_getitem d ''query''
             else if dict_contains ''q'' d then dict_getitem d ''q''
             else query_from_params rq))"

text \<open>
  The functions of other libraries that \<^verbatim>\<open>graphql_response\<close> calls:
  \<^verbatim>\<open>encode_execution_results\<close> of \<^verbatim>\<open>graphql_server\<close> (with the fixed arguments of the
  source: one result, not a batch, default error format, compact JSON), which gives the
  encoded document and a status code, and \<^verbatim>\<open>json.loads\<close>.
\<close>

record externals =
  encode_execution_results :: "execution_result \<Rightarrow> exn + (string \<times> nat)"
  json_loads :: "string \<Rightarrow> exn + json"

text \<open>
  \<^verbatim>\<open>API.graphql_response\<close>. It stores the decoded document in \<^verbatim>\<open>resp.media\<close> and returns
  the triple; the status code is not written to the response.
\<close>

definition graphql_response ::
  "externals \<Rightarrow> 'w pyobj \<Rightarrow> (json \<times> string \<times> nat, 'w) call" where
  "graphql_response ext schema s =
     (case resolve_graphql_query (req s) of
        Inl e \<Rightarrow> (Inl e, s)
      | Inr query \<Rightarrow>
          (case map_of (attrs schema) ''execute'' of
             None \<Rightarrow> (Inl AttributeError, s)
           | Some execute \<Rightarrow>
               (case invoke (map_option (\<lambda>f. f query) (call_query execute)) s of
                  (Inl e, s1) \<Rightarrow> (Inl e, s1)
                | (Inr result, s1) \<Rightarrow>
                    (case encode_execution_results ext result of
                       Inl e \<Rightarrow> (Inl e, s1)
                     | Inr (encoded, code) \<Rightarrow>
                         (case json_loads ext encoded of
                            Inl e \<Rightarrow> (Inl e, s1)
                          | Inr m \<Rightarrow>
                              (Inr (query, encoded, code),
                               s1\<lparr>resp := (resp s1)\<lparr>media := Some m\<rparr>\<rparr>))))))"

section \<open>Dispatch\<close>

text \<open>
  What \<^verbatim>\<open>_dispatch_request\<close> returns: the response object \<^verbatim>\<open>resp\<close> (its contents are
  the \<open>resp\<close> of the final state), or whatever a raw gateway application returned.
\<close>

datatype dispatch_result = ResponseObject | Raw "string list"

text \<open>
  How lines 93 to 113 end when they do not raise: the handler took \<^verbatim>\<open>(req, resp)\<close> and
  dispatch is over; a raw application returned a value, which is returned at once; or
  \<^verbatim>\<open>view\<close> is bound and control reaches the hooks of line 115.
\<close>

datatype 'w shape = Handled | RawReturn "string list" | View "'w pyobj"

text \<open>
  Lines 101 to 104: \<^verbatim>\<open>assert hasattr(view, "execute")\<close>, then \<^verbatim>\<open>graphql_response\<close>.
\<close>

definition graphql_attempt :: "externals \<Rightarrow> 'w pyobj \<Rightarrow> (unit, 'w) call" where
  "graphql_attempt ext view s =
     (if \<not> hasattr view ''execute'' then (Inl AssertionError, s)
      else (case graphql_response ext view s of
              (Inl e, s1) \<Rightarrow> (Inl e, s1)
            | (Inr r, s1) \<Rightarrow> (Inr (), s1)))"

text \<open>
  Lines 107 to 113: the flag is set, then the view is called with the keyword arguments
  \<^verbatim>\<open>environ\<close> and \<^verbatim>\<open>start_response\<close>; a \<^verbatim>\<open>TypeError\<close> is passed over.
\<close>

definition wsgi_attempt :: "'w pyobj \<Rightarrow> ('w shape, 'w) call" where
  "wsgi_attempt view s =
     (let s1 = s\<lparr>req := (req s)\<lparr>dispatched := True\<rparr>\<rparr> in
      case invoke (map_option (\<lambda>f. f (environ (req s1)) (start_response (req s1)))
                     (call_wsgi view)) s1 of
        (Inr v, s2) \<Rightarrow> (Inr (RawReturn v), s2)
      | (Inl e, s2) \<Rightarrow> if e = TypeError then (Inr (View view), s2) else (Inl e, s2))"

text \<open>
  Lines 97 to 113, entered when \<^verbatim>\<open>h(req, resp)\<close> raised \<^verbatim>\<open>TypeError\<close>: the handler is
  called with no argument to make the view; on a \<^verbatim>\<open>TypeError\<close> the handler itself is
  the view, tried as a GraphQL schema and then as a raw application.
\<close>

definition view_attempt :: "externals \<Rightarrow> 'w pyobj \<Rightarrow> ('w shape, 'w) call" where
  "view_attempt ext h s =
     (case invoke (call_noargs h) s of
        (Inr view, s2) \<Rightarrow> (Inr (View view), s2)
      | (Inl e2, s2) \<Rightarrow>
          if e2 \<noteq> TypeError then (Inl e2, s2)
          else
            (case graphql_attempt ext h s2 of
               (Inr u, s3) \<Rightarrow> (Inr (View h), s3)
             | (Inl e3, s3) \<Rightarrow>
                 if e3 \<noteq> AssertionError then (Inl e3, s3) else wsgi_attempt h s3))"

text \<open>Lines 93 to 113, for the handler \<open>h\<close> that \<^verbatim>\<open>self.routes[route]\<close> gives.\<close>

definition resolve_view :: "externals \<Rightarrow> 'w pyobj \<Rightarrow> ('w shape, 'w) call" where
  "resolve_view ext h s =
     (case invoke (call_req_resp h) s of
        (Inr u, s1) \<Rightarrow> (Inr Handled, s1)
      | (Inl e1, s1) \<Rightarrow> if e1 \<noteq> TypeError then (Inl e1, s1) else view_attempt ext h s1)"

text \<open>
  One hook, lines 116 to 119 and 124 to 127: \<^verbatim>\<open>getattr(view, name)(req, resp)\<close> with
  \<^verbatim>\<open>AttributeError\<close> passed over, whether the attribute is missing or the hook raised it.
\<close>

definition call_hook :: "'w pyobj \<Rightarrow> string \<Rightarrow> (unit, 'w) call" where
  "call_hook view name s =
     (case map_of (attrs view) name of
        None \<Rightarrow> (Inr (), s)
      | Some hook \<Rightarrow>
          (case invoke (call_req_resp hook) s of
             (Inr u, s1) \<Rightarrow> (Inr (), s1)
           | (Inl e, s1) \<Rightarrow> if e = AttributeError then (Inr (), s1) else (Inl e, s1)))"

text \<open>Lines 115 to 127 and the \<^verbatim>\<open>return resp\<close> of line 131.\<close>

definition run_hooks :: "'w pyobj \<Rightarrow> (dispatch_result, 'w) call" where
  "run_hooks view s =
     (case call_hook view ''on_request'' s of
        (Inl e, s1) \<Rightarrow> (Inl e, s1)
      | (Inr u, s1) \<Rightarrow>
          (case call_hook view (''on_'' @ lower (req_method (req s1))) s1 of
             (Inl e, s2) \<Rightarrow> (Inl e, s2)
           | (Inr u, s2) \<Rightarrow> (Inr ResponseObject, s2)))"

text \<open>
  What follows lines 93 to 113: an error propagates, a raw application's value has been
  returned, the hooks run on a view, and otherwise \<^verbatim>\<open>resp\<close> is returned as it is.
\<close>

definition finish :: "(exn + 'w shape) \<times> 'w state \<Rightarrow> (exn + dispatch_result) \<times> 'w state" where
  "finish r =
     (case r of
        (Inl e, s1) \<Rightarrow> (Inl e, s1)
      | (Inr Handled, s1) \<Rightarrow> (Inr ResponseObject, s1)
      | (Inr (RawReturn v), s1) \<Rightarrow> (Inr (Raw v), s1)
      | (Inr (View view), s1) \<Rightarrow> run_hooks view s1)"

text \<open>
  The state in which the dispatch of a request starts: the request, the new response of
  line 90, and the world as it is.
\<close>

definition initial_state :: "request \<Rightarrow> 'w \<Rightarrow> 'w state" where
  "initial_state rq w = \<lparr>req = rq, resp = Response rq, world = w\<rparr>"

text \<open>
  \<^verbatim>\<open>API._dispatch_request\<close>. \<^verbatim>\<open>if route:\<close> tests the truth value of what
  \<^verbatim>\<open>path_matches_route\<close> returned: \<^verbatim>\<open>None\<close> and the empty string are both false.
  The route table is not changed while a request is dispatched, so the three reads of
  \<^verbatim>\<open>self.routes[route]\<close> give the same handler \<open>h\<close>.
\<close>

definition truthy :: "string option \<Rightarrow> bool" where
  "truthy route = (case route of None \<Rightarrow> False | Some r \<Rightarrow> r \<noteq> [])"

definition dispatch_request ::
  "externals \<Rightarrow> 'w api \<Rightarrow> request \<Rightarrow> 'w \<Rightarrow> (exn + dispatch_result) \<times> 'w state" where
  "dispatch_request ext self rq w =
     (let route = path_matches_route self (path rq);
          s = initial_state rq w
      in if truthy route then
           (case dict_getitem (routes self) (case route of Some r \<Rightarrow> r | None \<Rightarrow> []) of
              Inl e \<Rightarrow> (Inl e, s)
            | Inr h \<Rightarrow> finish (resolve_view ext h s))
         else (Inr ResponseObject, default_response s))"

text \<open>
  \<^verbatim>\<open>API.__wsgi_app\<close> (lines 36 to 66) is the callable that the static-file layer wraps
  and the server reaches: it builds the request, dispatches it, and calls what the
  dispatcher returned as \<^verbatim>\<open>resp(environ, start_response)\<close>. The two functions of
  \<^verbatim>\<open>responder/models.py\<close> it uses, \<^verbatim>\<open>Request.from_environ\<close> and \<^verbatim>\<open>Response.__call__\<close>,
  are not among the sources and are parameters here.
\<close>

record 'w models =
  from_environ :: "environ \<Rightarrow> nat \<Rightarrow> request"
  response_call :: "environ \<Rightarrow> nat \<Rightarrow> (string list, 'w) call"

text \<open>
  Line 66 calls the value of line 65 whatever it is. The response object answers with
  \<^verbatim>\<open>Response.__call__\<close>. The value of a raw application is the body the gateway
  convention prescribes, a list of chunks, and a list cannot be called: the call raises
  \<^verbatim>\<open>TypeError\<close>. (The test \<^verbatim>\<open>if not req.dispatched\<close> of line 64 is commented out in the
  source.)
\<close>

definition inner_wsgi_app ::
  "'w models \<Rightarrow> externals \<Rightarrow> 'w api \<Rightarrow> environ \<Rightarrow> nat \<Rightarrow> 'w \<Rightarrow>
     (exn + string list) \<times> 'w state" where
  "inner_wsgi_app m ext self env sr w =
     (let rq = from_environ m env sr in
      case dispatch_request ext self rq w of
        (Inl e, s) \<Rightarrow> (Inl e, s)
      | (Inr ResponseObject, s) \<Rightarrow> response_call m env sr s
      | (Inr (Raw v), s) \<Rightarrow> (Inl TypeError, s))"

section \<open>Callers and example objects\<close>

text \<open>A caller that mounts applications one after the other.\<close>

fun mount_all :: "'w api \<Rightarrow> (string \<times> 'w pyobj) list \<Rightarrow> 'w api" where
  "mount_all self [] = self"
| "mount_all self ((route, wsgi_app) # ms) = mount_all (mount self route wsgi_app) ms"

text \<open>A caller that asks for the session again and again, and collects what it gets.\<close>

fun session_calls :: "'w api \<Rightarrow> string list \<Rightarrow> requests_session list \<times> 'w api" where
  "session_calls self [] = ([], self)"
| "session_calls self (base_url # bs) =
     (case session self base_url of
        (c, self1) \<Rightarrow> (case session_calls self1 bs of (cs, self2) \<Rightarrow> (c # cs, self2)))"


text \<open>
  In the examples the world is a call log: every body that runs appends its name, the way
  a test double records its calls.
\<close>

definition log_call :: "string \<Rightarrow> (unit, string list) call" where
  "log_call name s = (Inr (), s\<lparr>world := world s @ [name]\<rparr>)"

text \<open>\<^verbatim>\<open>def f(req, resp): log.append(name)\<close>\<close>

definition function_view :: "nat \<Rightarrow> string \<Rightarrow> string list pyobj" where
  "function_view n name = PyObj n (Some (log_call name)) None None None []"

definition get_request :: "string \<Rightarrow> request" where
  "get_request p =
     \<lparr>path = p, req_method = ''GET'', mimetype = ''text/plain'', json_body = Inl ValueError,
      data = PlainStr [], params = [], req_text = [], dispatched = False,
      environ = [(''PATH_INFO'', p)], start_response = 0\<rparr>"

definition no_externals :: externals where
  "no_externals =
     \<lparr>encode_execution_results = (\<lambda>r. Inl (OtherError ''unused'')),
      json_loads = (\<lambda>t. Inl (OtherError ''unused''))\<rparr>"

definition api_old :: "string list api" where
  "api_old =
     \<lparr>routes = [(''/a'', function_view 1 ''old'')], apps = [(''/'', Internal_wsgi_app)],
      session_cache = None\<rparr>"

definition api_one :: "string list api" where
  "api_one =
     \<lparr>routes = [(''/a'', function_view 1 ''f'')], apps = [(''/'', Internal_wsgi_app)],
      session_cache = None\<rparr>"

definition api_twice :: "string list api" where
  "api_twice =
     \<lparr>routes = [(''/a'', function_view 1 ''f''), (''/b'', function_view 1 ''f'')],
      apps = [(''/'', Internal_wsgi_app)], session_cache = None\<rparr>"

definition api_ab :: "string list api" where
  "api_ab =
     \<lparr>routes = [(''/a'', function_view 1 ''f''), (''/b'', function_view 2 ''g'')],
      apps = [(''/'', Internal_wsgi_app)], session_cache = None\<rparr>"

text \<open>\<^verbatim>\<open>def handler(req, resp): log.append(name); raise e\<close>\<close>

definition raise_after_log :: "string \<Rightarrow> exn \<Rightarrow> (unit, string list) call" where
  "raise_after_log name e s = (Inl e, s\<lparr>world := world s @ [name]\<rparr>)"

definition raising_view :: "nat \<Rightarrow> exn \<Rightarrow> string list pyobj" where
  "raising_view n e = PyObj n (Some (raise_after_log ''handler'' e)) None None None []"

definition api_raising :: "exn \<Rightarrow> string list api" where
  "api_raising e =
     \<lparr>routes = [(''/a'', raising_view 1 e)], apps = [(''/'', Internal_wsgi_app)],
      session_cache = None\<rparr>"

definition api_empty_path :: "string list api" where
  "api_empty_path =
     \<lparr>routes = [([], function_view 1 ''f'')], apps = [(''/'', Internal_wsgi_app)],
      session_cache = None\<rparr>"

text \<open>
  Methods that log their names, as an attribute dictionary; their identities count up
  from \<open>n\<close>.
\<close>

fun methods :: "nat \<Rightarrow> string list \<Rightarrow> (string, string list pyobj) dict" where
  "methods n [] = []"
| "methods n (name # names) = (name, function_view n name) # methods (Suc n) names"

text \<open>
  An instance of a class with hook methods, registered as it is: it cannot be called in
  any way. \<open>instance_view n hooks\<close> has a method for each name in \<open>hooks\<close>.
\<close>

definition instance_view :: "nat \<Rightarrow> string list \<Rightarrow> string list pyobj" where
  "instance_view n hooks = PyObj n None None None None (methods (Suc n) hooks)"

definition api_instance :: "string list \<Rightarrow> string list api" where
  "api_instance hooks =
     \<lparr>routes = [(''/a'', instance_view 1 hooks)], apps = [(''/'', Internal_wsgi_app)],
      session_cache = None\<rparr>"

text \<open>
  \<^verbatim>\<open>class App: def __call__(self, *, environ, start_response): ...\<close>, a raw gateway
  application that logs its call and returns one chunk.
\<close>

definition wsgi_body :: "environ \<Rightarrow> nat \<Rightarrow> (string list, string list) call" where
  "wsgi_body env sr s = (Inr [''hello''], s\<lparr>world := world s @ [''wsgi'']\<rparr>)"

definition wsgi_view :: "nat \<Rightarrow> string list pyobj" where
  "wsgi_view n = PyObj n None None (Some wsgi_body) None []"

definition api_wsgi :: "string list api" where
  "api_wsgi =
     \<lparr>routes = [(''/a'', wsgi_view 1)], apps = [(''/'', Internal_wsgi_app)],
      session_cache = None\<rparr>"

text \<open>
  A class with hook methods: \<^verbatim>\<open>Handler(req, resp)\<close> is refused by the constructor,
  \<^verbatim>\<open>Handler()\<close> makes an instance.
\<close>

definition construct :: "'w pyobj \<Rightarrow> ('w pyobj, 'w) call" where
  "construct obj s = (Inr obj, s)"

definition class_view :: "nat \<Rightarrow> string list \<Rightarrow> string list pyobj" where
  "class_view n hooks =
     PyObj n None (Some (construct (instance_view (Suc n) hooks))) None None []"

definition api_class :: "string list \<Rightarrow> string list api" where
  "api_class hooks =
     \<lparr>routes = [(''/a'', class_view 1 hooks)], apps = [(''/'', Internal_wsgi_app)],
      session_cache = None\<rparr>"

text \<open>
  A GraphQL schema object: its \<^verbatim>\<open>execute\<close> method logs its call and answers with the
  query as data. The object also takes \<^verbatim>\<open>environ\<close> and \<^verbatim>\<open>start_response\<close>, and has
  the methods named in \<open>hooks\<close>. The stand-in for the encoder writes the data of the
  result into the document, and the stand-in for \<^verbatim>\<open>json.loads\<close> gives it back as a
  string.
\<close>

definition execute_body :: "json \<Rightarrow> (execution_result, string list) call" where
  "execute_body query s =
     (Inr (ExecutionResult (Some query) []), s\<lparr>world := world s @ [''execute'']\<rparr>)"

definition schema_view :: "nat \<Rightarrow> string list \<Rightarrow> string list pyobj" where
  "schema_view n hooks =
     PyObj n None None (Some wsgi_body) None
       ((''execute'', PyObj (Suc n) None None None (Some execute_body) [])
        # methods (Suc (Suc n)) hooks)"

definition api_schema :: "string list \<Rightarrow> string list api" where
  "api_schema hooks =
     \<lparr>routes = [(''/a'', schema_view 1 hooks)], apps = [(''/'', Internal_wsgi_app)],
      session_cache = None\<rparr>"

fun encode_example :: "execution_result \<Rightarrow> exn + (string \<times> nat)" where
  "encode_example (ExecutionResult (Some (JStr q)) []) = Inr (''data:'' @ q, 200)"
| "encode_example (ExecutionResult d errors) = Inr (''errors'', 400)"

definition example_externals :: externals where
  "example_externals =
     \<lparr>encode_execution_results = encode_example, json_loads = (\<lambda>t. Inr (JStr t))\<rparr>"

text \<open>A GET request for \<^verbatim>\<open>/a\<close> whose text is the query \<^verbatim>\<open>{ping}\<close>.\<close>

definition ping_request :: request where
  "ping_request = (get_request ''/a'')\<lparr>req_text := ''{ping}''\<rparr>"

text \<open>A class whose instances are schema objects: \<^verbatim>\<open>Schema()\<close> makes one.\<close>

definition schema_class :: "nat \<Rightarrow> string list pyobj" where
  "schema_class n = PyObj n None (Some (construct (schema_view (Suc n) []))) None None []"

definition api_schema_class :: "string list api" where
  "api_schema_class =
     \<lparr>routes = [(''/a'', schema_class 1)], apps = [(''/'', Internal_wsgi_app)],
      session_cache = None\<rparr>"

text \<open>
  A schema object whose \<^verbatim>\<open>execute\<close> logs its call and fails an assertion of its own;
  the object also takes \<^verbatim>\<open>environ\<close> and \<^verbatim>\<open>start_response\<close>.
\<close>

definition asserting_execute_body :: "json \<Rightarrow> (execution_result, string list) call" where
  "asserting_execute_body query s =
     (Inl AssertionError, s\<lparr>world := world s @ [''execute'']\<rparr>)"

definition asserting_schema_view :: "nat \<Rightarrow> string list pyobj" where
  "asserting_schema_view n =
     PyObj n None None (Some wsgi_body) None
       [(''execute'', PyObj (Suc n) None None None (Some asserting_execute_body) [])]"

definition api_asserting_schema :: "string list api" where
  "api_asserting_schema =
     \<lparr>routes = [(''/a'', asserting_schema_view 1)], apps = [(''/'', Internal_wsgi_app)],
      session_cache = None\<rparr>"

text \<open>
  Stand-ins for the two functions of \<^verbatim>\<open>models.py\<close>: the request is a GET request for the
  \<^verbatim>\<open>PATH_INFO\<close> of the environment, and the response object answers with its text as
  the only chunk.
\<close>

definition request_of_environ :: "environ \<Rightarrow> nat \<Rightarrow> request" where
  "request_of_environ env sr =
     (get_request (case map_of env ''PATH_INFO'' of None \<Rightarrow> [] | Some p \<Rightarrow> p))
       \<lparr>environ := env, start_response := sr\<rparr>"

definition text_chunks :: "environ \<Rightarrow> nat \<Rightarrow> (string list, string list) call" where
  "text_chunks env sr s =
     (Inr [case resp_text (resp s) of None \<Rightarrow> [] | Some t \<Rightarrow> t], s)"

definition example_models :: "string list models" where
  "example_models = \<lparr>from_environ = request_of_environ, response_call = text_chunks\<rparr>"







section \<open>Dictionaries and route lookup\<close>

lemma lower_char_code:
  "of_char (lower_char c) =
     (let n = of_char c in if 65 \<le> n \<and> n \<le> 90 then n + 32 else (n::nat))"
  by (cases c) (auto simp: Let_def)

lemma map_of_dict_setitem: "map_of (dict_setitem d k v) = (map_of d)(k \<mapsto> v)"
  by (induction d k v rule: dict_setitem.induct) auto

lemma dict_getitem_setitem: "dict_getitem (dict_setitem d k v) k = Inr v"
  by (simp add: dict_getitem_def map_of_dict_setitem)

lemma dict_getitem_setitem_other:
  "k' \<noteq> k \<Longrightarrow> dict_getitem (dict_setitem d k v) k' = dict_getitem d k'"
  by (simp add: dict_getitem_def map_of_dict_setitem)

lemma path_matches_items_map_of:
  "path_matches_items d url = (if map_of d url = None then None else Some url)"
  by (induction d url rule: path_matches_items.induct) auto

text \<open>
  A registered, non-empty path: the dispatcher runs the cascade on the registered handler.
\<close>

lemma dispatch_registered:
  assumes "map_of (routes self) (path rq) = Some h" and "path rq \<noteq> []"
  shows "dispatch_request ext self rq w =
         finish (resolve_view ext h (initial_state rq w))"
  using assms
  by (simp add: dispatch_request_def path_matches_route_def path_matches_items_map_of
      truthy_def dict_getitem_def)

text \<open>An unregistered path, or the empty path: the default response.\<close>

lemma dispatch_unmatched:
  assumes "map_of (routes self) (path rq) = None \<or> path rq = []"
  shows "dispatch_request ext self rq w =
         (Inr ResponseObject, default_response (initial_state rq w))"
  using assms
  by (auto simp add: dispatch_request_def path_matches_route_def path_matches_items_map_of
      truthy_def dict_getitem_def)

text \<open>The definitions that a concrete dispatch unfolds, and those of the examples.\<close>

lemmas run_defs = inner_wsgi_app_def dispatch_request_def path_matches_route_def truthy_def
  dict_getitem_def
  dict_contains_def initial_state_def Response_def HTTP_404_def default_response_def
  resolve_view_def view_attempt_def graphql_attempt_def wsgi_attempt_def finish_def
  run_hooks_def call_hook_def invoke_def hasattr_def lower_def graphql_response_def
  resolve_graphql_query_def query_from_params_def first_param_def

lemmas example_defs = get_request_def function_view_def log_call_def raise_after_log_def
  raising_view_def api_raising_def api_empty_path_def instance_view_def api_instance_def
  wsgi_body_def wsgi_view_def api_wsgi_def construct_def class_view_def api_class_def
  execute_body_def schema_view_def api_schema_def example_externals_def ping_request_def
  schema_class_def api_schema_class_def asserting_execute_body_def asserting_schema_view_def
  api_asserting_schema_def request_of_environ_def text_chunks_def example_models_def


section \<open>The first shape: a callable taking the request and the response\<close>

text \<open>
  C1, the claim as stated: an error that a handler raises while it runs with
  \<^verbatim>\<open>(req, resp)\<close> always propagates out of dispatch. The handler below accepts the two
  arguments, logs its call and raises \<^verbatim>\<open>TypeError\<close>. The dispatcher takes that for a
  mismatch, tries the other shapes, finds none, and returns the response: the error is
  lost.
\<close>

theorem handler_TypeError_swallowed_counterexample:
  "dict_getitem (routes (api_raising TypeError)) ''/a'' = Inr (raising_view 1 TypeError) \<and>
   call_req_resp (raising_view 1 TypeError) = Some (raise_after_log ''handler'' TypeError) \<and>
   fst (raise_after_log ''handler'' TypeError (initial_state (get_request ''/a'') [])) = Inl TypeError \<and>
   fst (dispatch_request no_externals (api_raising TypeError) (get_request ''/a'') []) = Inr ResponseObject \<and>
   world (snd (dispatch_request no_externals (api_raising TypeError) (get_request ''/a'') [])) = [''handler'']"
  by (simp add: run_defs example_defs)

text \<open>
  C1, amended. For a handler registered at a non-empty path that accepts
  \<^verbatim>\<open>(req, resp)\<close>: an error other than \<^verbatim>\<open>TypeError\<close> that it raises propagates out of
  dispatch, with the state the handler left. A \<^verbatim>\<open>TypeError\<close> that it raises is treated
  as a handler that does not accept the two arguments is: dispatch goes on with the
  zero-argument call (lines 97 to 113), from the state the handler left. A handler that
  returns ends dispatch with the response object: the dispatcher leaves the first shape
  only on a \<^verbatim>\<open>TypeError\<close>.
\<close>

theorem handler_error_propagates_unless_TypeError:
  assumes "map_of (routes self) (path rq) = Some h" and "path rq \<noteq> []"
  shows "(call_req_resp h = Some body \<and> body (initial_state rq w) = (Inl e, s1) \<and> e \<noteq> TypeError \<longrightarrow>
            dispatch_request ext self rq w = (Inl e, s1)) \<and>
         (call_req_resp h = Some body \<and> body (initial_state rq w) = (Inl TypeError, s1) \<longrightarrow>
            dispatch_request ext self rq w = finish (view_attempt ext h s1)) \<and>
         (call_req_resp h = None \<longrightarrow>
            dispatch_request ext self rq w = finish (view_attempt ext h (initial_state rq w))) \<and>
         (call_req_resp h = Some body \<and> body (initial_state rq w) = (Inr u, s1) \<longrightarrow>
            dispatch_request ext self rq w = (Inr ResponseObject, s1))"
  using assms
  by (simp add: dispatch_registered resolve_view_def invoke_def finish_def)

text \<open>
  The theorem at a handler that raises \<^verbatim>\<open>ValueError\<close>, which propagates, and at one
  that raises \<^verbatim>\<open>TypeError\<close>, after which the zero-argument call is tried.
\<close>

theorem handler_error_propagates_unless_TypeError_witness:
  "dispatch_request no_externals (api_raising ValueError) (get_request ''/a'') [] =
     (Inl ValueError, (initial_state (get_request ''/a'') [])\<lparr>world := [''handler'']\<rparr>) \<and>
   dispatch_request no_externals (api_raising TypeError) (get_request ''/a'') [] =
     finish (view_attempt no_externals (raising_view 1 TypeError)
       ((initial_state (get_request ''/a'') [])\<lparr>world := [''handler'']\<rparr>))"
proof -
  have reg: "map_of (routes (api_raising e)) (path (get_request ''/a'')) = Some (raising_view 1 e)"
    for e by (simp add: api_raising_def get_request_def)
  have ne: "path (get_request ''/a'') \<noteq> []" by (simp add: get_request_def)
  have body: "call_req_resp (raising_view 1 e) = Some (raise_after_log ''handler'' e) \<and>
      raise_after_log ''handler'' e (initial_state (get_request ''/a'') []) =
        (Inl e, (initial_state (get_request ''/a'') [])\<lparr>world := [''handler'']\<rparr>)" for e
    by (simp add: raising_view_def raise_after_log_def initial_state_def)
  show ?thesis
    using handler_error_propagates_unless_TypeError [OF reg ne, of ValueError
        "raise_after_log ''handler'' ValueError" "[]" ValueError
        "(initial_state (get_request ''/a'') [])\<lparr>world := [''handler'']\<rparr>" no_externals]
      handler_error_propagates_unless_TypeError [OF reg ne, of TypeError
        "raise_after_log ''handler'' TypeError" "[]" ValueError
        "(initial_state (get_request ''/a'') [])\<lparr>world := [''handler'']\<rparr>" no_externals]
      body [of ValueError] body [of TypeError]
    by simp
qed

section \<open>Registered paths\<close>

text \<open>
  C2. A handler registered at the empty path is never invoked: \<^verbatim>\<open>add_route\<close> accepts the
  empty string, \<^verbatim>\<open>path_matches_route\<close> finds it, and \<^verbatim>\<open>if route:\<close> takes the empty
  string for ``no route''. The dispatch of a request for the empty path gives the
  default 404 response, and the handler's log stays empty. (For a registered non-empty
  path, \<open>dispatch_registered\<close> shows that the cascade runs on the handler.)
\<close>

theorem dispatch_empty_path_default_response:
  "add_route API_init [] (function_view 1 ''f'') True = Inr api_empty_path \<and>
   path_matches_route api_empty_path [] = Some [] \<and>
   dict_getitem (routes api_empty_path) [] = Inr (function_view 1 ''f'') \<and>
   dispatch_request no_externals api_empty_path (get_request []) [] =
     (Inr ResponseObject,
      \<lparr>req = get_request [],
       resp = \<lparr>status_code = 404, resp_text = Some ''Not found.'', media = None\<rparr>,
       world = []\<rparr>)"
  by (simp add: run_defs add_route_def API_init_def api_empty_path_def get_request_def)

section \<open>The GraphQL step\<close>









section \<open>The raw application step\<close>

text \<open>
  C4, the claim as stated. First, a calling-convention mismatch at the raw application
  step is said to leave the request unmarked: the object below cannot be called at all;
  line 108 has set the flag before the call of line 109 fails, and the hook \<^verbatim>\<open>on_get\<close>
  runs on a request that is marked as dispatched. Second, the value of a raw application
  is said to reach the transport boundary unmodified: the dispatcher returns the chunks
  of the raw application as they are, but its caller \<^verbatim>\<open>__wsgi_app\<close> calls them (line 66),
  and the server gets a \<^verbatim>\<open>TypeError\<close> instead of the chunks.
\<close>

theorem wsgi_mismatch_marks_request_counterexample:
  "call_wsgi (instance_view 1 [''on_get'']) = None \<and>
   dispatched (get_request ''/a'') = False \<and>
   dispatch_request no_externals (api_instance [''on_get'']) (get_request ''/a'') [] =
     (Inr ResponseObject,
      \<lparr>req = (get_request ''/a'')\<lparr>dispatched := True\<rparr>,
       resp = Response (get_request ''/a''), world = [''on_get'']\<rparr>) \<and>
   from_environ example_models [(''PATH_INFO'', ''/a'')] 0 = get_request ''/a'' \<and>
   dispatch_request no_externals api_wsgi (get_request ''/a'') [] =
     (Inr (Raw [''hello'']),
      \<lparr>req = (get_request ''/a'')\<lparr>dispatched := True\<rparr>,
       resp = Response (get_request ''/a''), world = [''wsgi'']\<rparr>) \<and>
   inner_wsgi_app example_models no_externals api_wsgi [(''PATH_INFO'', ''/a'')] 0 [] =
     (Inl TypeError,
      \<lparr>req = (get_request ''/a'')\<lparr>dispatched := True\<rparr>,
       resp = Response (get_request ''/a''), world = [''wsgi'']\<rparr>)"
  by (simp add: run_defs example_defs)

text \<open>
  What \<^verbatim>\<open>__wsgi_app\<close> does with the value of the dispatcher, for every application and
  request: a raw value is called and the call raises; the response object answers.
\<close>

lemma inner_wsgi_app_raw_value:
  assumes "dispatch_request ext self (from_environ m env sr) w = (Inr (Raw v), s)"
  shows "inner_wsgi_app m ext self env sr w = (Inl TypeError, s)"
  using assms by (simp add: inner_wsgi_app_def)

lemma inner_wsgi_app_response:
  assumes "dispatch_request ext self (from_environ m env sr) w = (Inr ResponseObject, s)"
  shows "inner_wsgi_app m ext self env sr w = response_call m env sr s"
  using assms by (simp add: inner_wsgi_app_def)

text \<open>
  C4, amended. Let the cascade reach the raw application step: \<^verbatim>\<open>h(req, resp)\<close> and
  \<^verbatim>\<open>h()\<close> raised \<^verbatim>\<open>TypeError\<close> and the GraphQL step raised \<^verbatim>\<open>AssertionError\<close>. The
  request is marked as dispatched first, and the object is called on the marked request.
  If the call returns, its value is what \<^verbatim>\<open>_dispatch_request\<close> returns, as it is (the
  statement is about the dispatcher; it says nothing of its caller). An error other than
  \<^verbatim>\<open>TypeError\<close> propagates. On a \<^verbatim>\<open>TypeError\<close>, a calling-convention mismatch
  included, dispatch goes on with the hook step and the request stays marked.
\<close>

theorem raw_application_step:
  assumes "map_of (routes self) (path rq) = Some h" and "path rq \<noteq> []"
    and "invoke (call_req_resp h) (initial_state rq w) = (Inl TypeError, s1)"
    and "invoke (call_noargs h) s1 = (Inl TypeError, s2)"
    and "graphql_attempt ext h s2 = (Inl AssertionError, s3)"
  shows "(call_wsgi h = Some app \<and>
          app (environ (req s3)) (start_response (req s3))
            (s3\<lparr>req := (req s3)\<lparr>dispatched := True\<rparr>\<rparr>) = (Inr v, s4) \<longrightarrow>
            dispatch_request ext self rq w = (Inr (Raw v), s4)) \<and>
         (call_wsgi h = Some app \<and>
          app (environ (req s3)) (start_response (req s3))
            (s3\<lparr>req := (req s3)\<lparr>dispatched := True\<rparr>\<rparr>) = (Inl e, s4) \<and> e \<noteq> TypeError \<longrightarrow>
            dispatch_request ext self rq w = (Inl e, s4)) \<and>
         (call_wsgi h = Some app \<and>
          app (environ (req s3)) (start_response (req s3))
            (s3\<lparr>req := (req s3)\<lparr>dispatched := True\<rparr>\<rparr>) = (Inl TypeError, s4) \<longrightarrow>
            dispatch_request ext self rq w = run_hooks h s4) \<and>
         (call_wsgi h = None \<longrightarrow>
            dispatch_request ext self rq w =
              run_hooks h (s3\<lparr>req := (req s3)\<lparr>dispatched := True\<rparr>\<rparr>))"
  using assms
  by (simp add: dispatch_registered resolve_view_def view_attempt_def wsgi_attempt_def
      finish_def Let_def) (simp add: invoke_def)

text \<open>
  The theorem at a raw application, whose value is returned, and at an object that
  cannot be called, whose hooks run on the marked request.
\<close>

theorem raw_application_step_witness:
  "dispatch_request no_externals api_wsgi (get_request ''/a'') [] =
     (Inr (Raw [''hello'']),
      \<lparr>req = (get_request ''/a'')\<lparr>dispatched := True\<rparr>,
       resp = Response (get_request ''/a''), world = [''wsgi'']\<rparr>) \<and>
   dispatch_request no_externals (api_instance [''on_get'']) (get_request ''/a'') [] =
     run_hooks (instance_view 1 [''on_get''])
       \<lparr>req = (get_request ''/a'')\<lparr>dispatched := True\<rparr>,
        resp = Response (get_request ''/a''), world = []\<rparr>"
proof -
  let ?s = "initial_state (get_request ''/a'') ([] :: string list)"
  have ne: "path (get_request ''/a'') \<noteq> []" by (simp add: get_request_def)
  have reg1: "map_of (routes api_wsgi) (path (get_request ''/a'')) = Some (wsgi_view 1)"
    by (simp add: api_wsgi_def get_request_def)
  have reg2: "map_of (routes (api_instance [''on_get''])) (path (get_request ''/a'')) =
      Some (instance_view 1 [''on_get''])"
    by (simp add: api_instance_def get_request_def)
  have a1: "invoke (call_req_resp (wsgi_view 1)) ?s = (Inl TypeError, ?s)"
    and b1: "invoke (call_noargs (wsgi_view 1)) ?s = (Inl TypeError, ?s)"
    and c1: "graphql_attempt no_externals (wsgi_view 1) ?s = (Inl AssertionError, ?s)"
    by (simp_all add: invoke_def wsgi_view_def graphql_attempt_def hasattr_def dict_contains_def)
  have a2: "invoke (call_req_resp (instance_view 1 [''on_get''])) ?s = (Inl TypeError, ?s)"
    and b2: "invoke (call_noargs (instance_view 1 [''on_get''])) ?s = (Inl TypeError, ?s)"
    and c2: "graphql_attempt no_externals (instance_view 1 [''on_get'']) ?s =
      (Inl AssertionError, ?s)"
    by (simp_all add: invoke_def instance_view_def graphql_attempt_def hasattr_def
        dict_contains_def)
  have app: "call_wsgi (wsgi_view 1) = Some wsgi_body \<and>
      wsgi_body (environ (req ?s)) (start_response (req ?s))
        (?s\<lparr>req := (req ?s)\<lparr>dispatched := True\<rparr>\<rparr>) =
      (Inr [''hello''],
       \<lparr>req = (get_request ''/a'')\<lparr>dispatched := True\<rparr>,
        resp = Response (get_request ''/a''), world = [''wsgi'']\<rparr>)"
    by (simp add: wsgi_view_def wsgi_body_def initial_state_def)
  have none: "call_wsgi (instance_view 1 [''on_get'']) = None"
    by (simp add: instance_view_def)
  have marked: "?s\<lparr>req := (req ?s)\<lparr>dispatched := True\<rparr>\<rparr> =
      \<lparr>req = (get_request ''/a'')\<lparr>dispatched := True\<rparr>,
       resp = Response (get_request ''/a''), world = []\<rparr>"
    by (simp add: initial_state_def)
  from raw_application_step [OF reg1 ne a1 b1 c1] app
  have "dispatch_request no_externals api_wsgi (get_request ''/a'') [] =
     (Inr (Raw [''hello'']),
      \<lparr>req = (get_request ''/a'')\<lparr>dispatched := True\<rparr>,
       resp = Response (get_request ''/a''), world = [''wsgi'']\<rparr>)"
    by blast
  moreover from raw_application_step [OF reg2 ne a2 b2 c2] none marked
  have "dispatch_request no_externals (api_instance [''on_get'']) (get_request ''/a'') [] =
     run_hooks (instance_view 1 [''on_get''])
       \<lparr>req = (get_request ''/a'')\<lparr>dispatched := True\<rparr>,
        resp = Response (get_request ''/a''), world = []\<rparr>"
    by metis
  ultimately show ?thesis by blast
qed

section \<open>The hook step\<close>

text \<open>
  C6. Let the cascade hand a view to the hook step (lines 115 to 127). If the view has
  \<^verbatim>\<open>on_request\<close> and \<^verbatim>\<open>on_get\<close>, both return, and the request method is GET in any
  letter case, then dispatch is \<^verbatim>\<open>on_request\<close> run on the state the cascade left,
  followed by \<^verbatim>\<open>on_get\<close> run on the state \<^verbatim>\<open>on_request\<close> left: each once, in this
  order. A hook the view does not have is skipped without an error: with neither hook
  dispatch returns the response untouched, and with one of them it runs that one alone.
\<close>

theorem hooks_in_order:
  assumes "map_of (routes self) (path rq) = Some h" and "path rq \<noteq> []"
    and "resolve_view ext h (initial_state rq w) = (Inr (View view), s1)"
  shows "(map_of (attrs view) ''on_request'' = Some h1 \<and> call_req_resp h1 = Some b1 \<and>
          b1 s1 = (Inr u1, s2) \<and> lower (req_method (req s2)) = ''get'' \<and>
          map_of (attrs view) ''on_get'' = Some h2 \<and> call_req_resp h2 = Some b2 \<and>
          b2 s2 = (Inr u2, s3) \<longrightarrow>
            dispatch_request ext self rq w = (Inr ResponseObject, s3)) \<and>
         (map_of (attrs view) ''on_request'' = None \<and>
          map_of (attrs view) (''on_'' @ lower (req_method (req s1))) = None \<longrightarrow>
            dispatch_request ext self rq w = (Inr ResponseObject, s1)) \<and>
         (map_of (attrs view) ''on_request'' = None \<and>
          map_of (attrs view) (''on_'' @ lower (req_method (req s1))) = Some h2 \<and>
          call_req_resp h2 = Some b2 \<and> b2 s1 = (Inr u2, s3) \<longrightarrow>
            dispatch_request ext self rq w = (Inr ResponseObject, s3)) \<and>
         (map_of (attrs view) ''on_request'' = Some h1 \<and> call_req_resp h1 = Some b1 \<and>
          b1 s1 = (Inr u1, s2) \<and>
          map_of (attrs view) (''on_'' @ lower (req_method (req s2))) = None \<longrightarrow>
            dispatch_request ext self rq w = (Inr ResponseObject, s2))"
proof -
  have "dispatch_request ext self rq w = run_hooks view s1"
    using assms by (simp add: dispatch_registered finish_def)
  then show ?thesis
    by (simp add: run_hooks_def call_hook_def invoke_def)
qed

text \<open>
  The theorem at a class with \<^verbatim>\<open>on_post\<close>, \<^verbatim>\<open>on_get\<close> and \<^verbatim>\<open>on_request\<close>, whose
  methods log their calls, and at a class with \<^verbatim>\<open>on_post\<close> alone, on a GET request.
\<close>

theorem hooks_in_order_witness:
  "world (snd (dispatch_request no_externals
       (api_class [''on_post'', ''on_get'', ''on_request'']) (get_request ''/a'') [])) =
     [''on_request'', ''on_get''] \<and>
   dispatch_request no_externals (api_class [''on_post'']) (get_request ''/a'') [] =
     (Inr ResponseObject, initial_state (get_request ''/a'') [])"
proof -
  let ?s = "initial_state (get_request ''/a'') ([] :: string list)"
  let ?all = "[''on_post'', ''on_get'', ''on_request'']"
  let ?s2 = "?s\<lparr>world := [''on_request'']\<rparr>"
  let ?s3 = "?s\<lparr>world := [''on_request'', ''on_get'']\<rparr>"
  have ne: "path (get_request ''/a'') \<noteq> []" by (simp add: get_request_def)
  have reg: "map_of (routes (api_class hooks)) (path (get_request ''/a'')) = Some (class_view 1 hooks)"
    for hooks by (simp add: api_class_def get_request_def)
  have res: "resolve_view no_externals (class_view 1 hooks) ?s =
      (Inr (View (instance_view 2 hooks)), ?s)"
    for hooks
    by (simp add: resolve_view_def view_attempt_def invoke_def class_view_def construct_def
        numeral_2_eq_2)
  have both: "map_of (attrs (instance_view 2 ?all)) ''on_request'' =
        Some (function_view 5 ''on_request'') \<and>
      call_req_resp (function_view 5 ''on_request'') = Some (log_call ''on_request'') \<and>
      log_call ''on_request'' ?s = (Inr (), ?s2) \<and>
      lower (req_method (req ?s2)) = ''get'' \<and>
      map_of (attrs (instance_view 2 ?all)) ''on_get'' = Some (function_view 4 ''on_get'') \<and>
      call_req_resp (function_view 4 ''on_get'') = Some (log_call ''on_get'') \<and>
      log_call ''on_get'' ?s2 = (Inr (), ?s3)"
    by (simp add: instance_view_def function_view_def log_call_def initial_state_def
        get_request_def lower_def eval_nat_numeral)
  have neither: "map_of (attrs (instance_view 2 [''on_post''])) ''on_request'' = None \<and>
      map_of (attrs (instance_view 2 [''on_post''])) (''on_'' @ lower (req_method (req ?s))) = None"
    by (simp add: instance_view_def initial_state_def get_request_def lower_def)
  from hooks_in_order [OF reg ne res, of ?all] both
  have "dispatch_request no_externals (api_class ?all) (get_request ''/a'') [] =
      (Inr ResponseObject, ?s3)"
    by blast
  then have "world (snd (dispatch_request no_externals (api_class ?all) (get_request ''/a'') [])) =
      [''on_request'', ''on_get'']"
    by simp
  moreover from hooks_in_order [OF reg ne res, of "[''on_post'']"] neither
  have "dispatch_request no_externals (api_class [''on_post'']) (get_request ''/a'') [] =
      (Inr ResponseObject, ?s)"
    by blast
  ultimately show ?thesis by blast
qed

section \<open>GraphQL query resolution: the precedence\<close>



section \<open>Route registration\<close>

text \<open>
  C7. Registering a handler at a path that is already in the route table fails with
  \<^verbatim>\<open>AssertionError\<close> (the source's duplicate-route error) when \<^verbatim>\<open>check_existing\<close> is
  left on. With \<^verbatim>\<open>check_existing=False\<close> the registration succeeds, the table then
  holds the new handler at that path, and every later dispatch of that path is the
  dispatch of a table that holds the new handler alone: the handler registered before
  plays no part. For a non-empty path, that dispatch is the cascade run on the new
  handler.
\<close>

theorem add_route_duplicate_or_overwrite:
  assumes "dict_contains route (routes self)"
  shows "add_route self route view True = Inl AssertionError \<and>
         (\<exists>self'. add_route self route view False = Inr self' \<and>
            dict_getitem (routes self') route = Inr view \<and>
            (\<forall>ext rq w. path rq = route \<longrightarrow>
               dispatch_request ext self' rq w =
               dispatch_request ext (self'\<lparr>routes := [(route, view)]\<rparr>) rq w) \<and>
            (\<forall>ext rq w. path rq = route \<and> route \<noteq> [] \<longrightarrow>
               dispatch_request ext self' rq w =
               finish (resolve_view ext view (initial_state rq w))))"
proof -
  let ?self' = "self\<lparr>routes := dict_setitem (routes self) route view\<rparr>"
  have dup: "add_route self route view True = Inl AssertionError"
    using assms by (simp add: add_route_def)
  have ow: "add_route self route view False = Inr ?self'"
    by (simp add: add_route_def)
  have look: "map_of (routes ?self') route = Some view"
    by (simp add: map_of_dict_setitem)
  have get: "dict_getitem (routes ?self') route = Inr view"
    by (simp add: dict_getitem_setitem)
  have single: "dispatch_request ext ?self' rq w =
      dispatch_request ext (?self'\<lparr>routes := [(route, view)]\<rparr>) rq w"
    if "path rq = route" for ext rq w
  proof (cases "route = []")
    case True
    with that show ?thesis by (simp add: dispatch_unmatched)
  next
    case False
    with that look show ?thesis by (simp add: dispatch_registered)
  qed
  have run: "dispatch_request ext ?self' rq w =
      finish (resolve_view ext view (initial_state rq w))"
    if "path rq = route \<and> route \<noteq> []" for ext rq w
    using that look by (simp add: dispatch_registered)
  show ?thesis
    using dup ow get single run by blast
qed

theorem add_route_duplicate_or_overwrite_witness:
  "dict_contains ''/a'' (routes api_old) \<and>
   add_route api_old ''/a'' (function_view 2 ''new'') True = Inl AssertionError \<and>
   (\<exists>self'. add_route api_old ''/a'' (function_view 2 ''new'') False = Inr self' \<and>
      world (snd (dispatch_request no_externals self' (get_request ''/a'') [])) = [''new''])"
proof -
  have h: "dict_contains ''/a'' (routes api_old)"
    by (simp add: dict_contains_def api_old_def)
  from add_route_duplicate_or_overwrite [OF h, of "function_view 2 ''new''"]
  obtain self' where
    a: "add_route api_old ''/a'' (function_view 2 ''new'') True = Inl AssertionError" and
    b: "add_route api_old ''/a'' (function_view 2 ''new'') False = Inr self'" and
    c: "\<forall>ext rq w. path rq = ''/a'' \<longrightarrow>
          dispatch_request ext self' rq w =
          dispatch_request ext (self'\<lparr>routes := [(''/a'', function_view 2 ''new'')]\<rparr>) rq w"
    by blast
  have "dispatch_request no_externals self' (get_request ''/a'') [] =
        dispatch_request no_externals
          (self'\<lparr>routes := [(''/a'', function_view 2 ''new'')]\<rparr>) (get_request ''/a'') []"
    using c by (simp add: get_request_def)
  then have "world (snd (dispatch_request no_externals self' (get_request ''/a'') [])) = [''new'']"
    by (simp add: dispatch_request_def path_matches_route_def truthy_def dict_getitem_def
        get_request_def resolve_view_def finish_def invoke_def function_view_def log_call_def
        initial_state_def)
  with h a b show ?thesis by blast
qed

section \<open>Reverse lookup\<close>

text \<open>
  C8, the claim as stated: every handler registered at a path \<open>P\<close> is looked up back to
  \<open>P\<close>. It fails when one handler is registered at two paths. Both registrations below
  succeed with \<^verbatim>\<open>check_existing\<close> on (the paths differ), the handler is registered at
  \<^verbatim>\<open>/b\<close>, and the reverse lookup gives \<^verbatim>\<open>/a\<close>.
\<close>

theorem url_for_round_trip_counterexample:
  "add_route API_init ''/a'' (function_view 1 ''f'') True = Inr api_one \<and>
   add_route api_one ''/b'' (function_view 1 ''f'') True = Inr api_twice \<and>
   dict_getitem (routes api_twice) ''/b'' = Inr (function_view 1 ''f'') \<and>
   url_for api_twice (function_view 1 ''f'') = Inr ''/a'' \<and>
   url_for api_twice (function_view 1 ''f'') \<noteq> Inr ''/b''"
  by (simp add: add_route_def API_init_def api_one_def api_twice_def dict_contains_def
      dict_getitem_def url_for_def py_eq_def function_view_def)

lemma url_for_items_Inr:
  "url_for_items d view = Inr p \<longleftrightarrow>
     (\<exists>pre v post. d = pre @ (p, v) # post \<and> py_eq view v \<and> (\<forall>(r, u) \<in> set pre. \<not> py_eq view u))"
proof (induction d view rule: url_for_items.induct)
  case (1 view)
  then show ?case by simp
next
  case (2 route view' items view)
  show ?case
  proof (cases "py_eq view view'")
    case True
    have "(\<exists>pre v post. (route, view') # items = pre @ (p, v) # post \<and> py_eq view v \<and>
             (\<forall>(r, u) \<in> set pre. \<not> py_eq view u)) \<longleftrightarrow> route = p"
    proof
      assume "\<exists>pre v post. (route, view') # items = pre @ (p, v) # post \<and> py_eq view v \<and>
             (\<forall>(r, u) \<in> set pre. \<not> py_eq view u)"
      then obtain pre v post where eq: "(route, view') # items = pre @ (p, v) # post"
        and nopre: "\<forall>(r, u) \<in> set pre. \<not> py_eq view u" by blast
      show "route = p"
      proof (cases pre)
        case Nil
        with eq show ?thesis by simp
      next
        case (Cons a pre')
        with eq have "a = (route, view')" by simp
        with Cons nopre True show ?thesis by simp
      qed
    next
      assume "route = p"
      then have "(route, view') # items = [] @ (p, view') # items" by simp
      with True show "\<exists>pre v post. (route, view') # items = pre @ (p, v) # post \<and> py_eq view v \<and>
             (\<forall>(r, u) \<in> set pre. \<not> py_eq view u)"
        by (metis (no_types, lifting) empty_iff empty_set case_prodI2)
    qed
    with True show ?thesis by auto
  next
    case False
    have "(\<exists>pre v post. (route, view') # items = pre @ (p, v) # post \<and> py_eq view v \<and>
             (\<forall>(r, u) \<in> set pre. \<not> py_eq view u)) \<longleftrightarrow>
          (\<exists>pre v post. items = pre @ (p, v) # post \<and> py_eq view v \<and>
             (\<forall>(r, u) \<in> set pre. \<not> py_eq view u))" (is "?L \<longleftrightarrow> ?R")
    proof
      assume ?L
      then obtain pre v post where eq: "(route, view') # items = pre @ (p, v) # post"
        and v: "py_eq view v" and nopre: "\<forall>(r, u) \<in> set pre. \<not> py_eq view u" by blast
      show ?R
      proof (cases pre)
        case Nil
        with eq v False show ?thesis by simp
      next
        case (Cons a pre')
        with eq have "items = pre' @ (p, v) # post" by simp
        moreover from Cons nopre have "\<forall>(r, u) \<in> set pre'. \<not> py_eq view u" by simp
        ultimately show ?thesis using v by blast
      qed
    next
      assume ?R
      then obtain pre v post where eq: "items = pre @ (p, v) # post"
        and v: "py_eq view v" and nopre: "\<forall>(r, u) \<in> set pre. \<not> py_eq view u" by blast
      from eq have "(route, view') # items = ((route, view') # pre) @ (p, v) # post" by simp
      moreover from nopre False have "\<forall>(r, u) \<in> set ((route, view') # pre). \<not> py_eq view u" by simp
      ultimately show ?L using v by blast
    qed
    with False 2 show ?thesis by simp
  qed
qed

lemma url_for_items_Inl:
  "url_for_items d view = Inl e \<longleftrightarrow> e = ValueError \<and> (\<forall>(r, u) \<in> set d. \<not> py_eq view u)"
  by (induction d view rule: url_for_items.induct) auto

lemma url_for_items_unique:
  assumes "(p, v) \<in> set d" "py_eq view v" "\<forall>(r, u) \<in> set d. py_eq view u \<longrightarrow> r = p"
  shows "url_for_items d view = Inr p"
  using assms by (induction d view rule: url_for_items.induct) auto

text \<open>
  C8, amended. \<^verbatim>\<open>url_for\<close> returns a path exactly when that path is the first entry of the
  route table, in registration order, whose handler equals the argument. So a handler
  registered at \<open>p\<close> and equal to the handler of no other route is looked up back to
  \<open>p\<close>, and a handler equal to no registered handler makes \<^verbatim>\<open>url_for\<close> raise
  \<^verbatim>\<open>ValueError\<close>.
\<close>

theorem url_for_first_match:
  "(url_for self view = Inr p \<longleftrightarrow>
      (\<exists>pre v post. routes self = pre @ (p, v) # post \<and> py_eq view v \<and>
         (\<forall>(r, u) \<in> set pre. \<not> py_eq view u))) \<and>
   ((p, view) \<in> set (routes self) \<and> (\<forall>(r, u) \<in> set (routes self). py_eq view u \<longrightarrow> r = p)
      \<longrightarrow> url_for self view = Inr p) \<and>
   ((\<forall>(r, u) \<in> set (routes self). \<not> py_eq view u) \<longrightarrow> url_for self view = Inl ValueError)"
proof -
  have "py_eq view view" by (simp add: py_eq_def)
  then show ?thesis
    unfolding url_for_def
    using url_for_items_Inr [of "routes self" view p] url_for_items_Inl [of "routes self" view ValueError]
      url_for_items_unique [of p view "routes self" view]
    by blast
qed

theorem url_for_first_match_witness:
  "url_for api_ab (function_view 2 ''g'') = Inr ''/b'' \<and>
   url_for api_ab (function_view 3 ''h'') = Inl ValueError"
proof -
  have "(''/b'', function_view 2 ''g'') \<in> set (routes api_ab) \<and>
        (\<forall>(r, u) \<in> set (routes api_ab). py_eq (function_view 2 ''g'') u \<longrightarrow> r = ''/b'')"
    by (simp add: api_ab_def py_eq_def function_view_def)
  moreover have "\<forall>(r, u) \<in> set (routes api_ab). \<not> py_eq (function_view 3 ''h'') u"
    by (simp add: api_ab_def py_eq_def function_view_def)
  ultimately show ?thesis
    using url_for_first_match [of api_ab "function_view 2 ''g''" "''/b''"]
      url_for_first_match [of api_ab "function_view 3 ''h''" "''/b''"]
    by blast
qed

section \<open>Mounted applications\<close>

text \<open>
  C9, the claim as stated: after any sequence of \<^verbatim>\<open>mount\<close> calls the entry \<^verbatim>\<open>"/"\<close> is
  still the application's own gateway callable. \<^verbatim>\<open>mount\<close> has no guard: mounting at
  \<^verbatim>\<open>"/"\<close> replaces the entry.
\<close>

theorem mount_root_counterexample:
  "dict_getitem (apps (mount API_init ''/'' (function_view 7 ''other''))) ''/'' =
     Inr (Mounted (function_view 7 ''other'')) \<and>
   dict_getitem (apps (mount_all API_init [(''/'', function_view 7 ''other'')])) ''/'' \<noteq>
     Inr Internal_wsgi_app"
  by (simp add: mount_def API_init_def dict_getitem_def)

lemma mount_all_other_prefixes:
  "\<forall>(route, wsgi_app) \<in> set ms. route \<noteq> k \<Longrightarrow>
   dict_getitem (apps (mount_all self ms)) k = dict_getitem (apps self) k"
proof (induction self ms rule: mount_all.induct)
  case (1 self)
  then show ?case by simp
next
  case (2 self route wsgi_app ms)
  then have "route \<noteq> k" and rest: "\<forall>(route, wsgi_app) \<in> set ms. route \<noteq> k" by auto
  from 2 rest have "dict_getitem (apps (mount_all (mount self route wsgi_app) ms)) k =
        dict_getitem (apps (mount self route wsgi_app)) k"
    by blast
  also have "\<dots> = dict_getitem (apps self) k"
    using \<open>route \<noteq> k\<close> by (simp add: mount_def dict_getitem_setitem_other)
  finally show ?case by simp
qed

text \<open>
  C9, amended. After any sequence of \<^verbatim>\<open>mount\<close> calls on a new application, none of them
  at the prefix \<^verbatim>\<open>"/"\<close>, the entry \<^verbatim>\<open>"/"\<close> is still the application's own gateway
  callable; a \<^verbatim>\<open>mount\<close> at \<^verbatim>\<open>"/"\<close> puts the mounted application there instead.
\<close>

theorem mount_keeps_root_unless_mounted_there:
  "((\<forall>(route, wsgi_app) \<in> set ms. route \<noteq> ''/'') \<longrightarrow>
      dict_getitem (apps (mount_all API_init ms)) ''/'' = Inr Internal_wsgi_app) \<and>
   dict_getitem (apps (mount self ''/'' wsgi_app)) ''/'' = Inr (Mounted wsgi_app)"
proof -
  have "dict_getitem (apps (API_init :: 'a api)) ''/'' = Inr Internal_wsgi_app"
    by (simp add: API_init_def dict_getitem_def)
  moreover have "dict_getitem (apps (mount self ''/'' wsgi_app)) ''/'' = Inr (Mounted wsgi_app)"
    by (simp add: mount_def dict_getitem_setitem)
  ultimately show ?thesis
    using mount_all_other_prefixes [of ms "''/''" "API_init :: 'a api"] by simp
qed

theorem mount_keeps_root_unless_mounted_there_witness:
  "dict_getitem
     (apps (mount_all API_init
        [(''/static'', function_view 7 ''files''), (''/admin'', function_view 8 ''admin''),
         (''/static'', function_view 9 ''other'')])) ''/'' = Inr Internal_wsgi_app \<and>
   dict_getitem
     (apps (mount_all API_init
        [(''/static'', function_view 7 ''files''), (''/admin'', function_view 8 ''admin''),
         (''/static'', function_view 9 ''other'')])) ''/static'' = Inr (Mounted (function_view 9 ''other''))"
proof -
  let ?ms = "[(''/static'', function_view 7 ''files''), (''/admin'', function_view 8 ''admin''),
         (''/static'', function_view 9 ''other'')]"
  have "\<forall>(route, wsgi_app) \<in> set ?ms. route \<noteq> ''/''" by simp
  then have "dict_getitem (apps (mount_all API_init ?ms)) ''/'' = Inr Internal_wsgi_app"
    using mount_keeps_root_unless_mounted_there [of ?ms] by blast
  moreover have "dict_getitem (apps (mount_all API_init ?ms)) ''/static'' = Inr (Mounted (function_view 9 ''other''))"
    by (simp add: mount_def API_init_def dict_getitem_def)
  ultimately show ?thesis by blast
qed

section \<open>The cached client session\<close>

text \<open>
  C10. On an application with no cached session, \<^verbatim>\<open>session(base_url)\<close> builds a session
  with the gateway adapter mounted at \<open>base_url\<close> and caches it. Every later call, with
  any argument, returns that same session and leaves the application as it is: a caller
  that asks any number of times gets the first session every time.
\<close>

theorem session_memoized:
  assumes "session_cache self = None"
  shows "\<exists>c. adapters c = [(base_url, RequestsWSGIAdapter)] \<and>
           session self base_url = (c, self\<lparr>session_cache := Some c\<rparr>) \<and>
           (\<forall>b. session (self\<lparr>session_cache := Some c\<rparr>) b = (c, self\<lparr>session_cache := Some c\<rparr>)) \<and>
           (\<forall>bs. session_calls self (base_url # bs) =
                   (replicate (Suc (length bs)) c, self\<lparr>session_cache := Some c\<rparr>))"
proof -
  let ?c = "session_mount RequestsSession base_url RequestsWSGIAdapter"
  let ?self1 = "self\<lparr>session_cache := Some ?c\<rparr>"
  have ad: "adapters ?c = [(base_url, RequestsWSGIAdapter)]"
    by (simp add: session_mount_def RequestsSession_def)
  have first: "session self base_url = (?c, ?self1)"
    using assms by (simp add: session_def Let_def)
  have later: "session ?self1 b = (?c, ?self1)" for b
    by (simp add: session_def)
  have seq: "session_calls ?self1 bs = (replicate (length bs) ?c, ?self1)" for bs
    by (induction bs) (simp_all add: later)
  have "session_calls self (base_url # bs) = (replicate (Suc (length bs)) ?c, ?self1)" for bs
    by (simp add: first seq)
  with ad first later show ?thesis by blast
qed

theorem session_memoized_witness:
  "session_cache (API_init :: string list api) = None \<and>
   fst (session_calls (API_init :: string list api) [''http://app'', ''http://other'', ''http://app'']) =
     replicate 3 \<lparr>adapters = [(''http://app'', RequestsWSGIAdapter)]\<rparr>"
proof -
  have h: "session_cache (API_init :: string list api) = None" by (simp add: API_init_def)
  from session_memoized [OF h, of "''http://app''"]
  obtain c where c: "adapters c = [(''http://app'', RequestsWSGIAdapter)]"
    and calls: "\<forall>bs. session_calls (API_init :: string list api) (''http://app'' # bs) =
                   (replicate (Suc (length bs)) c, API_init\<lparr>session_cache := Some c\<rparr>)"
    by blast
  from calls have "session_calls (API_init :: string list api)
      (''http://app'' # [''http://other'', ''http://app'']) =
      (replicate (Suc (length [''http://other'', ''http://app''])) c, API_init\<lparr>session_cache := Some c\<rparr>)"
    by (rule spec)
  then have "fst (session_calls (API_init :: string list api)
      [''http://app'', ''http://other'', ''http://app'']) = replicate 3 c"
    by (simp only: fst_conv length_Cons list.size numeral_3_eq_3)
  moreover from c have "c = \<lparr>adapters = [(''http://app'', RequestsWSGIAdapter)]\<rparr>"
    by (cases c) simp
  ultimately have "fst (session_calls (API_init :: string list api)
      [''http://app'', ''http://other'', ''http://app'']) =
      replicate 3 \<lparr>adapters = [(''http://app'', RequestsWSGIAdapter)]\<rparr>"
    by simp
  with h show ?thesis by blast
qed

end
